theory Spec2Isabelle
  imports Main "HOL-Library.Char_ord" "HOL-Library.List_Lexorder" "HOL-Library.Multiset"
begin

section \<open>Strings\<close>

text \<open>
  A Python \<open>str\<close> is a sequence of code points. It is modelled as a \<open>string\<close> whose
  characters are the code points 0 to 255; texts with larger code points are outside
  the model. The handlers call two string methods.

  \<open>str.strip()\<close> removes leading and trailing whitespace. Below 256 the whitespace
  characters of Python are 9 to 13, 28 to 32, 133 and 160.

  \<open>str.upper()\<close> maps a to z to A to Z and the accented small letters 224 to 254
  (but the division sign 247) to their capitals 32 below; the sharp s (223) becomes SS.
  The capitals of the micro sign (181) and of y with diaeresis (255) lie beyond 255;
  the model keeps these two characters. The program only compares the result with
  the word YES, and that comparison comes out the same.
\<close>

definition is_space :: "char \<Rightarrow> bool" where
  "is_space c = (c \<in> set [CHR 0x09, CHR 0x0A, CHR 0x0B, CHR 0x0C, CHR 0x0D,
                           CHR 0x1C, CHR 0x1D, CHR 0x1E, CHR 0x1F, CHR '' '',
                           CHR 0x85, CHR 0xA0])"

definition strip :: "string \<Rightarrow> string" where
  "strip s = rev (dropWhile is_space (rev (dropWhile is_space s)))"

definition small_letters :: string where
  "small_letters = ''abcdefghijklmnopqrstuvwxyz'' @
     [CHR 0xE0, CHR 0xE1, CHR 0xE2, CHR 0xE3, CHR 0xE4, CHR 0xE5, CHR 0xE6, CHR 0xE7,
      CHR 0xE8, CHR 0xE9, CHR 0xEA, CHR 0xEB, CHR 0xEC, CHR 0xED, CHR 0xEE, CHR 0xEF,
      CHR 0xF0, CHR 0xF1, CHR 0xF2, CHR 0xF3, CHR 0xF4, CHR 0xF5, CHR 0xF6, CHR 0xF8,
      CHR 0xF9, CHR 0xFA, CHR 0xFB, CHR 0xFC, CHR 0xFD, CHR 0xFE]"

definition capital_letters :: string where
  "capital_letters = ''ABCDEFGHIJKLMNOPQRSTUVWXYZ'' @
     [CHR 0xC0, CHR 0xC1, CHR 0xC2, CHR 0xC3, CHR 0xC4, CHR 0xC5, CHR 0xC6, CHR 0xC7,
      CHR 0xC8, CHR 0xC9, CHR 0xCA, CHR 0xCB, CHR 0xCC, CHR 0xCD, CHR 0xCE, CHR 0xCF,
      CHR 0xD0, CHR 0xD1, CHR 0xD2, CHR 0xD3, CHR 0xD4, CHR 0xD5, CHR 0xD6, CHR 0xD8,
      CHR 0xD9, CHR 0xDA, CHR 0xDB, CHR 0xDC, CHR 0xDD, CHR 0xDE]"

definition upper_char :: "char \<Rightarrow> string" where
  "upper_char c =
     (if c = CHR 0xDF then ''SS''
      else (case map_of (zip small_letters capital_letters) c of
              None \<Rightarrow> [c]
            | Some u \<Rightarrow> [u]))"

definition upper :: "string \<Rightarrow> string" where
  "upper s = concat (map upper_char s)"

section \<open>Data model\<close>

text \<open>The request body of \<open>POST /add_entry\<close> (class \<open>ProblemEntry\<close>).\<close>

record ProblemEntry =
  problem :: string
  name :: string
  email :: string

text \<open>
  One row of the table \<open>problems\<close>, with the six columns of the \<open>CREATE TABLE\<close>
  statement. \<open>created_at\<close> holds the text that \<open>CURRENT_TIMESTAMP\<close> produced; SQLite
  compares such values bytewise, which is the lexicographic order on \<open>string\<close>.
\<close>

record problem_row =
  col_id :: int
  col_problem :: string
  col_name :: string
  col_email :: string
  col_created_at :: string
  col_uuid :: string

text \<open>
  The table: its rows in rowid order, and the largest id ever handed out
  (\<open>AUTOINCREMENT\<close> keeps it in \<open>sqlite_sequence\<close>).
\<close>

record problems_table =
  table_rows :: "problem_row list"
  sqlite_sequence :: int

text \<open>
  The file \<open>problems.db\<close>: it is missing, or it exists and holds the table or not
  (\<open>sqlite3.connect\<close> creates an empty database file when there is none).
\<close>

datatype database = No_file | Db_file "problems_table option"

fun path_exists :: "database \<Rightarrow> bool" where
  "path_exists No_file = False"
| "path_exists (Db_file _) = True"

fun table_of :: "database \<Rightarrow> problems_table option" where
  "table_of No_file = None"
| "table_of (Db_file t) = t"

definition stored_rows :: "database \<Rightarrow> problem_row list" where
  "stored_rows d = (case table_of d of None \<Rightarrow> [] | Some t \<Rightarrow> table_rows t)"

section \<open>Connections and transactions\<close>

text \<open>
  A connection sees the committed content of the file (\<open>on_disk\<close>) and its own
  uncommitted changes (\<open>in_txn\<close>). Other connections read \<open>on_disk\<close> only.
  A statement raises when the table is missing, or when the environment makes it fail
  (I/O error, lock, full disk); a failed statement or commit changes nothing on disk.
\<close>

record connection =
  on_disk :: "problems_table option"
  in_txn :: "problems_table option"

datatype db_fault = No_fault | Execute_fails string | Commit_fails string

definition connect :: "database \<Rightarrow> connection" where
  "connect d = \<lparr>on_disk = table_of d, in_txn = table_of d\<rparr>"

definition commit :: "db_fault \<Rightarrow> connection \<Rightarrow> string + connection" where
  "commit f c =
     (case f of
        Commit_fails m \<Rightarrow> Inl m
      | _ \<Rightarrow> Inr (c\<lparr>on_disk := in_txn c\<rparr>))"

definition rollback :: "connection \<Rightarrow> connection" where
  "rollback c = c\<lparr>in_txn := on_disk c\<rparr>"

definition close :: "connection \<Rightarrow> database" where
  "close c = Db_file (on_disk c)"

definition next_id :: "problems_table \<Rightarrow> int" where
  "next_id t = fold max (map col_id (table_rows t)) (sqlite_sequence t) + 1"

text \<open>\<open>CREATE TABLE IF NOT EXISTS problems (...)\<close>\<close>

definition execute_create_table :: "db_fault \<Rightarrow> connection \<Rightarrow> string + connection" where
  "execute_create_table f c =
     (case f of
        Execute_fails m \<Rightarrow> Inl m
      | _ \<Rightarrow>
          (case in_txn c of
             None \<Rightarrow> Inr (c\<lparr>in_txn := Some \<lparr>table_rows = [], sqlite_sequence = 0\<rparr>\<rparr>)
           | Some _ \<Rightarrow> Inr c))"

text \<open>
  \<open>INSERT INTO problems (problem, name, email, uuid) VALUES (?, ?, ?, ?)\<close>: the id is
  the next one of the sequence, \<open>created_at\<close> is the store's clock.
\<close>

definition execute_insert ::
  "db_fault \<Rightarrow> string \<Rightarrow> string \<Rightarrow> string \<Rightarrow> string \<Rightarrow> string \<Rightarrow> connection \<Rightarrow> string + connection" where
  "execute_insert f clock p n e u c =
     (case in_txn c of
        None \<Rightarrow> Inl ''no such table: problems''
      | Some t \<Rightarrow>
          (case f of
             Execute_fails m \<Rightarrow> Inl m
           | _ \<Rightarrow>
               Inr (c\<lparr>in_txn := Some
                 \<lparr>table_rows = table_rows t @
                    [\<lparr>col_id = next_id t, col_problem = p, col_name = n, col_email = e,
                      col_created_at = clock, col_uuid = u\<rparr>],
                  sqlite_sequence = next_id t\<rparr>\<rparr>)))"

text \<open>
  \<open>SELECT id, problem, name, created_at FROM problems ORDER BY created_at DESC\<close>.
  The table is read in rowid order and sorted by \<open>created_at\<close>, largest first; the
  sort is stable, so rows with the same \<open>created_at\<close> stay in rowid order.
\<close>

definition order_by_created_at_desc :: "problem_row list \<Rightarrow> problem_row list" where
  "order_by_created_at_desc rs = rev (sort_key col_created_at (rev rs))"

definition execute_select :: "db_fault \<Rightarrow> connection \<Rightarrow> string + problem_row list" where
  "execute_select f c =
     (case in_txn c of
        None \<Rightarrow> Inl ''no such table: problems''
      | Some t \<Rightarrow>
          (case f of
             Execute_fails m \<Rightarrow> Inl m
           | _ \<Rightarrow> Inr (order_by_created_at_desc (table_rows t))))"

text \<open>\<open>DELETE FROM problems WHERE uuid = ?\<close>\<close>

definition execute_delete :: "db_fault \<Rightarrow> string \<Rightarrow> connection \<Rightarrow> string + connection" where
  "execute_delete f u c =
     (case in_txn c of
        None \<Rightarrow> Inl ''no such table: problems''
      | Some t \<Rightarrow>
          (case f of
             Execute_fails m \<Rightarrow> Inl m
           | _ \<Rightarrow>
               Inr (c\<lparr>in_txn := Some (t\<lparr>table_rows := filter (\<lambda>r. col_uuid r \<noteq> u) (table_rows t)\<rparr>)\<rparr>)))"

section \<open>The moderation gate\<close>

text \<open>
  \<open>get_mistral_response\<close> sends the problem text to the external service and returns
  \<open>chat_response.choices[0].message.content\<close> as it is. The service is outside the
  program: the environment gives, for each text, what the call does. It raises (an
  error of the client, a timeout, a response without choices), or it returns the
  content of the first choice, which is a text, or no text at all: \<open>None\<close>, or a
  list of chunks. The texts sent are recorded in \<open>sent\<close>, oldest first.

  \<open>add_entry\<close> calls \<open>.upper()\<close> on what is returned: on a content that is not a
  text this raises an \<open>AttributeError\<close> (\<open>py_upper\<close>).
\<close>

datatype message_content = Text string | No_content | Chunks

datatype gate_result = Gate_raises string | Gate_returns message_content

record environment =
  uuid4 :: string
  mistral :: "string \<Rightarrow> gate_result"
  now :: string
  fault :: db_fault

record world =
  db :: database
  sent :: "string list"

definition get_mistral_response :: "environment \<Rightarrow> world \<Rightarrow> string \<Rightarrow> world \<times> gate_result" where
  "get_mistral_response env w p = (w\<lparr>sent := sent w @ [p]\<rparr>, mistral env p)"

definition attribute_error :: "string \<Rightarrow> string" where
  "attribute_error ty =
     [CHR 0x27] @ ty @ [CHR 0x27] @ '' object has no attribute '' @
     [CHR 0x27] @ ''upper'' @ [CHR 0x27]"

definition py_upper :: "message_content \<Rightarrow> string + string" where
  "py_upper c =
     (case c of
        Text s \<Rightarrow> Inr (upper s)
      | No_content \<Rightarrow> Inl (attribute_error ''NoneType'')
      | Chunks \<Rightarrow> Inl (attribute_error ''list''))"

section \<open>The handlers\<close>

datatype http_exception = HTTPException (status_code: nat) (detail: string)

datatype py_value = PyInt int | PyStr string

definition database_error :: "string \<Rightarrow> http_exception" where
  "database_error m = HTTPException 500 (''Database error: '' @ m)"

text \<open>
  \<open>init_db\<close>: the guard is on the file, not on the table. An exception of the
  statement or of the commit is not caught: it ends the start of the process, and is
  returned here as \<open>Inl\<close> with its message.
\<close>

definition init_db :: "db_fault \<Rightarrow> database \<Rightarrow> database \<times> (string + unit)" where
  "init_db f d =
     (if \<not> path_exists d then
        (let conn = connect d in
         case execute_create_table f conn of
           Inl m \<Rightarrow> (close conn, Inl m)
         | Inr conn1 \<Rightarrow>
             (case commit f conn1 of
                Inl m \<Rightarrow> (close conn1, Inl m)
              | Inr conn2 \<Rightarrow> (close conn2, Inr ())))
      else (d, Inr ()))"

text \<open>
  \<open>add_entry\<close>: the emptiness check comes before everything else; the connection is
  opened before the gate is called; every exception inside the \<open>try\<close> block (of
  the gate call, of \<open>.upper()\<close>, of the insert, of the commit) rolls the connection
  back and becomes a 500; the connection is closed on every path.
\<close>

definition add_entry ::
  "environment \<Rightarrow> world \<Rightarrow> ProblemEntry \<Rightarrow> world \<times> (http_exception + (string \<times> string) list)" where
  "add_entry env w entry =
     (if strip (problem entry) = [] then
        (w, Inl (HTTPException 400 ''Problem description cannot be empty''))
      else
        (let uuid_str = uuid4 env;
             conn = connect (db w);
             (w1, mistral_response) = get_mistral_response env w (problem entry)
         in case mistral_response of
              Gate_raises m \<Rightarrow> (w1\<lparr>db := close (rollback conn)\<rparr>, Inl (database_error m))
            | Gate_returns content \<Rightarrow>
                (case py_upper content of
                   Inl m \<Rightarrow> (w1\<lparr>db := close (rollback conn)\<rparr>, Inl (database_error m))
                 | Inr up \<Rightarrow>
                     (if up = ''YES'' then
                        (case execute_insert (fault env) (now env)
                                (problem entry) (name entry) (email entry) uuid_str conn of
                           Inl m \<Rightarrow>
                             (w1\<lparr>db := close (rollback conn)\<rparr>, Inl (database_error m))
                         | Inr conn1 \<Rightarrow>
                             (case commit (fault env) conn1 of
                                Inl m \<Rightarrow>
                                  (w1\<lparr>db := close (rollback conn1)\<rparr>,
                                   Inl (database_error m))
                              | Inr conn2 \<Rightarrow>
                                  (w1\<lparr>db := close conn2\<rparr>,
                                   Inr [(''status'', ''success''),
                                        (''message'', ''Entry added successfully'')])))
                      else
                        (w1\<lparr>db := close conn\<rparr>,
                         Inr [(''status'', ''error''),
                              (''message'',
                               ''Entry not added because it was flagged as potentially offensive'')])))))"

definition row_dict :: "problem_row \<Rightarrow> (string \<times> py_value) list" where
  "row_dict entry =
     [(''id'', PyInt (col_id entry)),
      (''problem'', PyStr (col_problem entry)),
      (''name'', PyStr (col_name entry)),
      (''created_at'', PyStr (col_created_at entry))]"

definition get_all_entries ::
  "db_fault \<Rightarrow> database \<Rightarrow> database \<times> (http_exception + (string \<times> py_value) list list)" where
  "get_all_entries f d =
     (let conn = connect d in
      case execute_select f conn of
        Inl m \<Rightarrow> (close conn, Inl (database_error m))
      | Inr entries \<Rightarrow> (close conn, Inr (map row_dict entries)))"

definition delete_entry ::
  "db_fault \<Rightarrow> database \<Rightarrow> string \<Rightarrow> database \<times> (http_exception + (string \<times> string) list)" where
  "delete_entry f d uuid =
     (let conn = connect d in
      case execute_delete f uuid conn of
        Inl m \<Rightarrow> (close conn, Inl (database_error m))
      | Inr conn1 \<Rightarrow>
          (case commit f conn1 of
             Inl m \<Rightarrow> (close conn1, Inl (database_error m))
           | Inr conn2 \<Rightarrow>
               (close conn2,
                Inr [(''status'', ''success''), (''message'', ''Entry deleted successfully'')])))"

section \<open>Position in a listing\<close>

text \<open>\<open>listed_before x y xs\<close>: some occurrence of \<open>x\<close> in \<open>xs\<close> has a \<open>y\<close> after it.\<close>

fun listed_before :: "'a \<Rightarrow> 'a \<Rightarrow> 'a list \<Rightarrow> bool" where
  "listed_before x y [] = False"
| "listed_before x y (z # zs) = ((z = x \<and> y \<in> set zs) \<or> listed_before x y zs)"

section \<open>Sequences of requests\<close>

text \<open>
  The service handles one request after the other. \<open>serve\<close> applies one handler to the
  world; \<open>tokens\<close> lists the uuids generated for the submissions of a sequence, and
  \<open>inserted_uuids\<close> the uuids of the rows that the sequence appends to the table, whether
  or not a later request deletes them.
\<close>

datatype request =
    Add_entry environment ProblemEntry
  | Delete_entry db_fault string
  | Get_all_entries db_fault

fun serve :: "world \<Rightarrow> request \<Rightarrow> world" where
  "serve w (Add_entry env entry) = fst (add_entry env w entry)"
| "serve w (Delete_entry f token) = w\<lparr>db := fst (delete_entry f (db w) token)\<rparr>"
| "serve w (Get_all_entries f) = w\<lparr>db := fst (get_all_entries f (db w))\<rparr>"

fun tokens :: "request list \<Rightarrow> string list" where
  "tokens [] = []"
| "tokens (Add_entry env entry # rs) = uuid4 env # tokens rs"
| "tokens (r # rs) = tokens rs"

fun inserted_uuids :: "world \<Rightarrow> request list \<Rightarrow> string list" where
  "inserted_uuids w [] = []"
| "inserted_uuids w (r # rs) =
     map col_uuid (drop (length (stored_rows (db w))) (stored_rows (db (serve w r)))) @
     inserted_uuids (serve w r) rs"

section \<open>Example inputs\<close>

text \<open>Concrete requests, environments and stores on which the theorems below are run.\<close>

definition car_entry :: ProblemEntry where
  "car_entry = \<lparr>problem = ''My car will not start'', name = ''Alice'', email = []\<rparr>"

definition padded_entry :: ProblemEntry where
  "padded_entry = \<lparr>problem = ''  slow wifi  '', name = ''Anonymous'', email = []\<rparr>"

definition blank_entry :: ProblemEntry where
  "blank_entry = \<lparr>problem = [CHR '' '', CHR 0x09, CHR 0x0A], name = ''Bob'', email = []\<rparr>"

definition accepting_env :: environment where
  "accepting_env =
     \<lparr>uuid4 = ''0b0e7a52-6c1d-4a57-9f0e-0c7c1c2f9a11'',
      mistral = (\<lambda>p. Gate_returns (Text ''Yes'')),
      now = ''2024-05-01 10:00:00'',
      fault = No_fault\<rparr>"

definition empty_table :: problems_table where
  "empty_table = \<lparr>table_rows = [], sqlite_sequence = 0\<rparr>"

definition fresh_world :: world where
  "fresh_world = \<lparr>db = Db_file (Some empty_table), sent = []\<rparr>"

definition rejecting_env :: environment where
  "rejecting_env = accepting_env\<lparr>mistral := (\<lambda>p. Gate_returns (Text ''NO''))\<rparr>"

definition unreachable_env :: environment where
  "unreachable_env = accepting_env\<lparr>mistral := (\<lambda>p. Gate_raises ''Connection timed out'')\<rparr>"

definition failing_commit_env :: environment where
  "failing_commit_env = accepting_env\<lparr>fault := Commit_fails ''disk I/O error''\<rparr>"

definition alice_row :: problem_row where
  "alice_row =
     \<lparr>col_id = 1, col_problem = ''My car will not start'', col_name = ''Alice'',
      col_email = [], col_created_at = ''2024-05-01 10:00:00'',
      col_uuid = ''0b0e7a52-6c1d-4a57-9f0e-0c7c1c2f9a11''\<rparr>"

definition one_row_world :: world where
  "one_row_world =
     \<lparr>db = Db_file (Some \<lparr>table_rows = [alice_row], sqlite_sequence = 1\<rparr>), sent = []\<rparr>"

definition second_env :: environment where
  "second_env = accepting_env\<lparr>uuid4 := ''7d1c3c0e-52a4-4b6f-8e1a-3b9a5d2f6c40''\<rparr>"

definition later_env :: environment where
  "later_env = second_env\<lparr>now := ''2024-05-01 10:00:01''\<rparr>"

definition wifi_row :: "string \<Rightarrow> problem_row" where
  "wifi_row clock =
     \<lparr>col_id = 2, col_problem = ''  slow wifi  '', col_name = ''Anonymous'',
      col_email = [], col_created_at = clock,
      col_uuid = ''7d1c3c0e-52a4-4b6f-8e1a-3b9a5d2f6c40''\<rparr>"

definition two_row_db :: "string \<Rightarrow> database" where
  "two_row_db clock =
     Db_file (Some \<lparr>table_rows = [alice_row, wifi_row clock], sqlite_sequence = 2\<rparr>)"

definition example_run :: "request list" where
  "example_run =
     [Add_entry accepting_env car_entry,
      Delete_entry No_fault ''0b0e7a52-6c1d-4a57-9f0e-0c7c1c2f9a11'',
      Add_entry second_env padded_entry]"

definition no_text_env :: environment where
  "no_text_env = accepting_env\<lparr>mistral := (\<lambda>p. Gate_returns No_content)\<rparr>"

definition same_token_world :: world where
  "same_token_world =
     serve (serve fresh_world (Add_entry accepting_env car_entry))
       (Add_entry accepting_env padded_entry)"

section \<open>Auxiliary facts\<close>

lemma strip_empty_iff: "strip s = [] \<longleftrightarrow> (\<forall>c\<in>set s. is_space c)"
proof
  assume "strip s = []"
  then have "dropWhile is_space (rev (dropWhile is_space s)) = []"
    by (simp add: strip_def)
  then have "\<forall>c\<in>set (dropWhile is_space s). is_space c"
    by simp
  then have "dropWhile is_space s = []"
    by (metis hd_dropWhile list.set_sel(1))
  then show "\<forall>c\<in>set s. is_space c"
    by simp
next
  assume "\<forall>c\<in>set s. is_space c"
  then have d: "dropWhile is_space s = []"
    by simp
  show "strip s = []"
    unfolding strip_def d by simp
qed

lemma get_all_entries_reads_table:
  "snd (get_all_entries f d) =
     (case table_of d of
        None \<Rightarrow> Inl (database_error ''no such table: problems'')
      | Some t \<Rightarrow>
          (case f of
             Execute_fails m \<Rightarrow> Inl (database_error m)
           | _ \<Rightarrow> Inr (map row_dict (order_by_created_at_desc (table_rows t)))))"
  by (simp add: get_all_entries_def connect_def execute_select_def
      split: option.splits db_fault.splits)

lemma execute_insert_on_disk:
  "execute_insert f clock p n e u c = Inr c1 \<Longrightarrow> on_disk c1 = on_disk c"
  by (auto simp: execute_insert_def split: option.splits db_fault.splits)

text \<open>The two normal paths of \<open>add_entry\<close>, in full.\<close>

lemma add_entry_accepted:
  assumes "\<exists>c\<in>set (problem entry). \<not> is_space c"
    and "table_of (db w) = Some t"
    and "fault env = No_fault"
    and "mistral env (problem entry) = Gate_returns (Text r)"
    and "upper r = ''YES''"
  shows "add_entry env w entry =
    (\<lparr>db = Db_file (Some
        \<lparr>table_rows = table_rows t @
           [\<lparr>col_id = next_id t, col_problem = problem entry, col_name = name entry,
             col_email = email entry, col_created_at = now env, col_uuid = uuid4 env\<rparr>],
         sqlite_sequence = next_id t\<rparr>),
      sent = sent w @ [problem entry]\<rparr>,
     Inr [(''status'', ''success''), (''message'', ''Entry added successfully'')])"
proof -
  have "strip (problem entry) \<noteq> []"
    using assms(1) by (simp add: strip_empty_iff)
  then show ?thesis
    using assms(2-5)
    by (simp add: add_entry_def get_mistral_response_def py_upper_def connect_def execute_insert_def
        commit_def close_def)
qed

lemma add_entry_rejected:
  assumes "\<exists>c\<in>set (problem entry). \<not> is_space c"
    and "mistral env (problem entry) = Gate_returns (Text r)"
    and "upper r \<noteq> ''YES''"
  shows "add_entry env w entry =
    (\<lparr>db = Db_file (table_of (db w)), sent = sent w @ [problem entry]\<rparr>,
     Inr [(''status'', ''error''),
          (''message'', ''Entry not added because it was flagged as potentially offensive'')])"
proof -
  have "strip (problem entry) \<noteq> []"
    using assms(1) by (simp add: strip_empty_iff)
  then show ?thesis
    using assms(2-3)
    by (simp add: add_entry_def get_mistral_response_def py_upper_def connect_def close_def)
qed

lemma add_entry_not_text:
  assumes "\<exists>c\<in>set (problem entry). \<not> is_space c"
    and "mistral env (problem entry) = Gate_returns content"
    and "py_upper content = Inl m"
  shows "add_entry env w entry =
    (\<lparr>db = Db_file (table_of (db w)), sent = sent w @ [problem entry]\<rparr>,
     Inl (HTTPException 500 (''Database error: '' @ m)))"
proof -
  have "strip (problem entry) \<noteq> []"
    using assms(1) by (simp add: strip_empty_iff)
  then show ?thesis
    using assms(2-3)
    by (simp add: add_entry_def get_mistral_response_def connect_def close_def rollback_def
        database_error_def)
qed

lemma add_entry_success_only_if_yes:
  assumes "snd (add_entry env w entry) =
             Inr [(''status'', ''success''), (''message'', ''Entry added successfully'')]"
  shows "\<exists>r. mistral env (problem entry) = Gate_returns (Text r) \<and> upper r = ''YES''"
  using assms
  by (auto simp: add_entry_def get_mistral_response_def py_upper_def Let_def
      split: if_splits gate_result.splits message_content.splits sum.splits)

lemma add_entry_rows_unless_success:
  assumes "snd (add_entry env w entry) \<noteq>
             Inr [(''status'', ''success''), (''message'', ''Entry added successfully'')]"
  shows "stored_rows (db (fst (add_entry env w entry))) = stored_rows (db w)"
  using assms
  by (auto simp: add_entry_def get_mistral_response_def py_upper_def connect_def
      execute_insert_def commit_def close_def rollback_def stored_rows_def Let_def
      split: if_splits gate_result.splits message_content.splits option.splits
        db_fault.splits)

text \<open>The listing order: a stable sort, largest \<open>created_at\<close> first.\<close>

lemma order_by_mset: "mset (order_by_created_at_desc rs) = mset rs"
  by (simp add: order_by_created_at_desc_def)

lemma order_by_sorted:
  "sorted_wrt (\<lambda>a b. col_created_at b \<le> col_created_at a) (order_by_created_at_desc rs)"
proof -
  have "sorted (map col_created_at (sort_key col_created_at (rev rs)))"
    by (rule sorted_sort_key)
  then have "sorted_wrt (\<lambda>a b. col_created_at a \<le> col_created_at b)
               (sort_key col_created_at (rev rs))"
    by (simp add: sorted_map)
  then show ?thesis
    by (simp add: order_by_created_at_desc_def sorted_wrt_rev)
qed

lemma order_by_stable:
  "filter (\<lambda>r. col_created_at r = k) (order_by_created_at_desc rs) =
   filter (\<lambda>r. col_created_at r = k) rs"
proof -
  have "filter (\<lambda>r. col_created_at r = k) (rev (sort_key col_created_at (rev rs))) =
        rev (filter (\<lambda>r. col_created_at r = k) (sort_key col_created_at (rev rs)))"
    by (simp add: rev_filter)
  also have "\<dots> = rev (filter (\<lambda>r. col_created_at r = k) (rev rs))"
    by (simp only: sort_key_stable)
  also have "\<dots> = filter (\<lambda>r. col_created_at r = k) rs"
    by (simp add: rev_filter)
  finally show ?thesis
    by (simp add: order_by_created_at_desc_def)
qed

lemma sorted_desc_listed_before:
  fixes key :: "'a \<Rightarrow> 'b::linorder"
  assumes "sorted_wrt (\<lambda>a b. key b \<le> key a) xs"
    and "a \<in> set xs" and "b \<in> set xs" and "key a < key b"
  shows "listed_before b a xs"
  using assms
proof (induction xs)
  case Nil
  then show ?case by simp
next
  case (Cons z zs)
  show ?case
  proof (cases "b = z")
    case True
    with Cons.prems have "a \<in> set zs" by auto
    with True show ?thesis by simp
  next
    case False
    with Cons.prems have b: "b \<in> set zs" by simp
    have "a \<noteq> z"
    proof
      assume "a = z"
      with Cons.prems(1) b have "key b \<le> key a" by simp
      with Cons.prems(4) show False by simp
    qed
    with Cons.prems have "a \<in> set zs" by simp
    with Cons b show ?thesis by simp
  qed
qed

lemma listed_before_map:
  "listed_before x y xs \<Longrightarrow> listed_before (g x) (g y) (map g xs)"
  by (induction xs) auto

lemma filter_key_distinct_le_one:
  "distinct (map key xs) \<Longrightarrow> length (filter (\<lambda>r. key r = k) xs) \<le> 1"
proof (induction xs)
  case Nil
  then show ?case by simp
next
  case (Cons x xs)
  show ?case
  proof (cases "key x = k")
    case True
    with Cons.prems have "k \<notin> key ` set xs" by simp
    then have "\<forall>r\<in>set xs. key r \<noteq> k" by blast
    then have "filter (\<lambda>r. key r = k) xs = []" by (simp add: filter_empty_conv)
    with True show ?thesis by simp
  next
    case False
    with Cons show ?thesis by simp
  qed
qed

text \<open>What the handlers do to the stored uuids, on every path.\<close>

lemma add_entry_uuids:
  "map col_uuid (stored_rows (db (fst (add_entry env w entry)))) =
     map col_uuid (stored_rows (db w)) @
       (if snd (add_entry env w entry) =
             Inr [(''status'', ''success''), (''message'', ''Entry added successfully'')]
        then [uuid4 env] else [])"
  by (auto simp: add_entry_def get_mistral_response_def py_upper_def connect_def execute_insert_def
      commit_def close_def rollback_def stored_rows_def database_error_def Let_def
      split: gate_result.splits message_content.splits option.splits db_fault.splits)

lemma add_entry_outcome_ignores_uuid:
  "snd (add_entry (env\<lparr>uuid4 := u\<rparr>) w entry) = snd (add_entry env w entry)"
  by (auto simp: add_entry_def get_mistral_response_def py_upper_def connect_def execute_insert_def
      commit_def Let_def split: gate_result.splits message_content.splits option.splits db_fault.splits)

lemma delete_entry_rows_le:
  "length (stored_rows (fst (delete_entry f d token))) \<le> length (stored_rows d)"
  by (auto simp: delete_entry_def connect_def execute_delete_def commit_def close_def
      stored_rows_def Let_def split: option.splits db_fault.splits)

lemma get_all_entries_rows:
  "stored_rows (fst (get_all_entries f d)) = stored_rows d"
  by (auto simp: get_all_entries_def connect_def execute_select_def close_def
      stored_rows_def Let_def split: option.splits db_fault.splits)

lemma appended_uuids:
  "map col_uuid (drop (length (stored_rows (db w))) (stored_rows (db (serve w r)))) =
     (case r of
        Add_entry env entry \<Rightarrow>
          (if snd (add_entry env w entry) =
                Inr [(''status'', ''success''), (''message'', ''Entry added successfully'')]
           then [uuid4 env] else [])
      | _ \<Rightarrow> [])"
proof (cases r)
  case (Add_entry env entry)
  have "map col_uuid (drop (length (stored_rows (db w)))
          (stored_rows (db (fst (add_entry env w entry))))) =
        drop (length (map col_uuid (stored_rows (db w))))
          (map col_uuid (stored_rows (db (fst (add_entry env w entry)))))"
    by (simp add: drop_map)
  also have "\<dots> =
      (if snd (add_entry env w entry) =
            Inr [(''status'', ''success''), (''message'', ''Entry added successfully'')]
       then [uuid4 env] else [])"
    by (simp only: add_entry_uuids append_eq_conv_conj drop_append length_map) simp
  finally show ?thesis
    using Add_entry by simp
next
  case (Delete_entry f token)
  then show ?thesis
    by (simp add: delete_entry_rows_le)
next
  case (Get_all_entries f)
  then show ?thesis
    by (simp add: get_all_entries_rows)
qed

lemma inserted_uuids_tokens: "set (inserted_uuids w rs) \<subseteq> set (tokens rs)"
proof (induction rs arbitrary: w)
  case Nil
  then show ?case by simp
next
  case (Cons r rs)
  show ?case
    using Cons.IH [of "serve w r"]
    by (cases r) (auto simp: appended_uuids simp del: serve.simps split: if_splits)
qed

lemma inserted_uuids_distinct: "distinct (tokens rs) \<Longrightarrow> distinct (inserted_uuids w rs)"
proof (induction rs arbitrary: w)
  case Nil
  then show ?case by simp
next
  case (Cons r rs)
  show ?case
    using Cons.IH [of "serve w r"] Cons.prems inserted_uuids_tokens [of "serve w r" rs]
    by (cases r) (auto simp: appended_uuids simp del: serve.simps split: if_splits)
qed

text \<open>Evaluation of the example inputs.\<close>

lemmas example_defs =
  car_entry_def padded_entry_def blank_entry_def accepting_env_def rejecting_env_def
  unreachable_env_def failing_commit_env_def empty_table_def fresh_world_def
  alice_row_def one_row_world_def second_env_def later_env_def wifi_row_def two_row_db_def
  example_run_def no_text_env_def same_token_world_def

lemmas string_defs =
  strip_def is_space_def upper_def upper_char_def small_letters_def capital_letters_def

lemmas store_defs =
  connect_def commit_def rollback_def close_def next_id_def execute_insert_def
  execute_select_def execute_delete_def execute_create_table_def stored_rows_def
  get_mistral_response_def py_upper_def attribute_error_def database_error_def

section \<open>Validation\<close>

text \<open>
  C3. A request whose problem text is empty or consists of whitespace only is refused
  with status 400 before anything else happens: the world is returned as it was, so no
  row is added, no database file is touched and nothing is sent to the moderation
  service.
\<close>

theorem add_entry_blank_is_invalid_input:
  assumes "\<forall>c\<in>set (problem entry). is_space c"
  shows "add_entry env w entry =
           (w, Inl (HTTPException 400 ''Problem description cannot be empty''))"
  using assms by (simp add: add_entry_def strip_empty_iff)

theorem add_entry_blank_is_invalid_input_witness:
  "list_all is_space (problem blank_entry) \<and>
   add_entry accepting_env fresh_world blank_entry =
     (fresh_world, Inl (HTTPException 400 ''Problem description cannot be empty''))"
proof -
  have h: "\<forall>c\<in>set (problem blank_entry). is_space c"
    by (simp add: blank_entry_def is_space_def)
  show ?thesis
    using h add_entry_blank_is_invalid_input [OF h, of accepting_env fresh_world]
    by (simp add: list_all_iff)
qed

section \<open>The moderation decision\<close>

text \<open>
  C1, as the code has it. For a submission whose text passes the emptiness check and
  a gate call that returns: when the content is a text \<open>r\<close> and \<open>upper r\<close> is the
  token YES, exactly one row is appended (the submitted one), provided the store holds
  the table and the insert does not fail; when it is any other text, no row is stored
  and the rejection body is returned; when it is not a text at all, no row is stored
  either, but the answer is not the rejection: \<open>.upper()\<close> raises and the handler
  raises an \<open>HTTPException\<close> with status 500. A row is stored only if the response
  is a text that, upper-cased, equals YES, and on a working store if and only if.
\<close>

theorem add_entry_stores_iff_gate_text_is_yes:
  assumes "\<exists>c\<in>set (problem entry). \<not> is_space c"
    and "mistral env (problem entry) = Gate_returns content"
  shows "(\<forall>r t. content = Text r \<and> upper r = ''YES'' \<and>
                table_of (db w) = Some t \<and> fault env = No_fault \<longrightarrow>
            stored_rows (db (fst (add_entry env w entry))) =
              table_rows t @
                [\<lparr>col_id = next_id t, col_problem = problem entry, col_name = name entry,
                  col_email = email entry, col_created_at = now env, col_uuid = uuid4 env\<rparr>]) \<and>
         (\<forall>r. content = Text r \<and> upper r \<noteq> ''YES'' \<longrightarrow>
            stored_rows (db (fst (add_entry env w entry))) = stored_rows (db w) \<and>
            snd (add_entry env w entry) =
              Inr [(''status'', ''error''),
                   (''message'',
                    ''Entry not added because it was flagged as potentially offensive'')]) \<and>
         ((\<forall>r. content \<noteq> Text r) \<longrightarrow>
            stored_rows (db (fst (add_entry env w entry))) = stored_rows (db w) \<and>
            (\<exists>m. snd (add_entry env w entry) =
                   Inl (HTTPException 500 (''Database error: '' @ m)))) \<and>
         (stored_rows (db (fst (add_entry env w entry))) \<noteq> stored_rows (db w) \<longrightarrow>
            (\<exists>r. content = Text r \<and> upper r = ''YES'')) \<and>
         (table_of (db w) \<noteq> None \<and> fault env = No_fault \<longrightarrow>
            (length (stored_rows (db (fst (add_entry env w entry)))) =
               Suc (length (stored_rows (db w)))
             \<longleftrightarrow> (\<exists>r. content = Text r \<and> upper r = ''YES'')))"
proof -
  let ?after = "stored_rows (db (fst (add_entry env w entry)))"
  have yes: "?after = table_rows t @
      [\<lparr>col_id = next_id t, col_problem = problem entry, col_name = name entry,
        col_email = email entry, col_created_at = now env, col_uuid = uuid4 env\<rparr>]"
    if "content = Text r" "upper r = ''YES''" "table_of (db w) = Some t" "fault env = No_fault"
    for r t
  proof -
    have gate: "mistral env (problem entry) = Gate_returns (Text r)"
      using assms(2) that(1) by simp
    show ?thesis
      by (simp add: add_entry_accepted [OF assms(1) that(3) that(4) gate that(2)]
          stored_rows_def)
  qed
  have no: "?after = stored_rows (db w) \<and>
      snd (add_entry env w entry) =
        Inr [(''status'', ''error''),
             (''message'', ''Entry not added because it was flagged as potentially offensive'')]"
    if "content = Text r" "upper r \<noteq> ''YES''" for r
  proof -
    have gate: "mistral env (problem entry) = Gate_returns (Text r)"
      using assms(2) that(1) by simp
    show ?thesis
      by (simp add: add_entry_rejected [OF assms(1) gate that(2)] stored_rows_def)
  qed
  have other: "?after = stored_rows (db w) \<and>
      (\<exists>m. snd (add_entry env w entry) = Inl (HTTPException 500 (''Database error: '' @ m)))"
    if "\<forall>r. content \<noteq> Text r"
  proof -
    have "\<exists>m. py_upper content = Inl m"
      using that by (cases content) (simp_all add: py_upper_def)
    then obtain m where up: "py_upper content = Inl m" ..
    show ?thesis
      by (simp add: add_entry_not_text [OF assms(1) assms(2) up] stored_rows_def)
  qed
  have only: "\<exists>r. content = Text r \<and> upper r = ''YES''"
    if "?after \<noteq> stored_rows (db w)"
  proof -
    have "snd (add_entry env w entry) =
        Inr [(''status'', ''success''), (''message'', ''Entry added successfully'')]"
      using that add_entry_rows_unless_success [of env w entry] by blast
    then obtain r where "mistral env (problem entry) = Gate_returns (Text r)"
      and "upper r = ''YES''"
      using add_entry_success_only_if_yes by blast
    with assms(2) show ?thesis by auto
  qed
  have iff: "length ?after = Suc (length (stored_rows (db w)))
      \<longleftrightarrow> (\<exists>r. content = Text r \<and> upper r = ''YES'')"
    if "table_of (db w) \<noteq> None" "fault env = No_fault"
  proof
    assume "length ?after = Suc (length (stored_rows (db w)))"
    then have "?after \<noteq> stored_rows (db w)" by auto
    then show "\<exists>r. content = Text r \<and> upper r = ''YES''" by (rule only)
  next
    assume "\<exists>r. content = Text r \<and> upper r = ''YES''"
    then obtain r where r: "content = Text r" "upper r = ''YES''" by blast
    from that(1) obtain t where t: "table_of (db w) = Some t" by blast
    have "stored_rows (db w) = table_rows t"
      using t by (simp add: stored_rows_def)
    then show "length ?after = Suc (length (stored_rows (db w)))"
      by (simp add: yes [OF r t that(2)])
  qed
  show ?thesis
    using yes no other only iff by blast
qed

theorem add_entry_stores_iff_gate_text_is_yes_witness:
  "(\<exists>c\<in>set (problem car_entry). \<not> is_space c) \<and>
   table_of (db fresh_world) = Some empty_table \<and>
   fault accepting_env = No_fault \<and>
   mistral accepting_env (problem car_entry) = Gate_returns (Text ''Yes'') \<and>
   upper ''Yes'' = ''YES'' \<and>
   stored_rows (db (fst (add_entry accepting_env fresh_world car_entry))) =
     [\<lparr>col_id = 1, col_problem = ''My car will not start'', col_name = ''Alice'',
       col_email = [], col_created_at = ''2024-05-01 10:00:00'',
       col_uuid = ''0b0e7a52-6c1d-4a57-9f0e-0c7c1c2f9a11''\<rparr>]"
proof -
  have h1: "\<exists>c\<in>set (problem car_entry). \<not> is_space c"
    by (simp add: car_entry_def is_space_def)
  have h2: "table_of (db fresh_world) = Some empty_table"
    by (simp add: fresh_world_def)
  have h3: "fault accepting_env = No_fault"
    by (simp add: accepting_env_def)
  have h4: "mistral accepting_env (problem car_entry) = Gate_returns (Text ''Yes'')"
    by (simp add: accepting_env_def)
  have h5: "upper ''Yes'' = ''YES''"
    by (simp add: upper_def upper_char_def small_letters_def capital_letters_def)
  have "stored_rows (db (fst (add_entry accepting_env fresh_world car_entry))) =
          table_rows empty_table @
            [\<lparr>col_id = next_id empty_table, col_problem = problem car_entry,
              col_name = name car_entry, col_email = email car_entry,
              col_created_at = now accepting_env, col_uuid = uuid4 accepting_env\<rparr>]"
    using add_entry_stores_iff_gate_text_is_yes [OF h1 h4, of fresh_world] h2 h3 h5 by blast
  also have "\<dots> =
     [\<lparr>col_id = 1, col_problem = ''My car will not start'', col_name = ''Alice'',
       col_email = [], col_created_at = ''2024-05-01 10:00:00'',
       col_uuid = ''0b0e7a52-6c1d-4a57-9f0e-0c7c1c2f9a11''\<rparr>]"
    by (simp add: example_defs next_id_def)
  finally show ?thesis
    using h1 h2 h3 h4 h5 by blast
qed

text \<open>
  Against C1 as stated: a malformed response. The service answers with a message whose
  content is \<open>None\<close>. No row is stored, but the submission is not treated as a
  rejection: the handler raises an \<open>HTTPException\<close> with status 500.
\<close>

theorem add_entry_no_text_response_counterexample:
  "mistral no_text_env (problem car_entry) = Gate_returns No_content \<and>
   snd (add_entry no_text_env fresh_world car_entry) =
     Inl (HTTPException 500 (''Database error: '' @ attribute_error ''NoneType'')) \<and>
   snd (add_entry no_text_env fresh_world car_entry) \<noteq>
     Inr [(''status'', ''error''),
          (''message'', ''Entry not added because it was flagged as potentially offensive'')] \<and>
   stored_rows (db (fst (add_entry no_text_env fresh_world car_entry))) = []"
proof -
  have c1: "mistral no_text_env (problem car_entry) = Gate_returns No_content"
    by (simp add: no_text_env_def accepting_env_def)
  have c2: "add_entry no_text_env fresh_world car_entry =
      (\<lparr>db = Db_file (Some empty_table), sent = [''My car will not start'']\<rparr>,
       Inl (HTTPException 500 (''Database error: '' @ attribute_error ''NoneType'')))"
    by (simp add: add_entry_def no_text_env_def accepting_env_def car_entry_def
        fresh_world_def empty_table_def strip_def is_space_def get_mistral_response_def
        py_upper_def connect_def close_def rollback_def database_error_def)
  show ?thesis
    using c1 by (simp add: c2 stored_rows_def empty_table_def)
qed

text \<open>
  C2. A submission that the gate classifies as a rejection (its text, upper-cased, is
  not YES) stores no row and comes back as a returned body, not as a raised
  \<open>HTTPException\<close>: status \<open>error\<close> with the fixed message. This holds whatever the state
  of the store, since no statement is executed on this path.
\<close>

theorem add_entry_rejection_is_normal_outcome:
  assumes "\<exists>c\<in>set (problem entry). \<not> is_space c"
    and "mistral env (problem entry) = Gate_returns (Text r)"
    and "upper r \<noteq> ''YES''"
  shows "snd (add_entry env w entry) =
           Inr [(''status'', ''error''),
                (''message'',
                 ''Entry not added because it was flagged as potentially offensive'')] \<and>
         \<not> isl (snd (add_entry env w entry)) \<and>
         table_of (db (fst (add_entry env w entry))) = table_of (db w) \<and>
         stored_rows (db (fst (add_entry env w entry))) = stored_rows (db w)"
  by (simp add: add_entry_rejected [OF assms] stored_rows_def)

theorem add_entry_rejection_is_normal_outcome_witness:
  "(\<exists>c\<in>set (problem car_entry). \<not> is_space c) \<and>
   mistral rejecting_env (problem car_entry) = Gate_returns (Text ''NO'') \<and>
   upper ''NO'' \<noteq> ''YES'' \<and>
   add_entry rejecting_env fresh_world car_entry =
     (fresh_world\<lparr>sent := [''My car will not start'']\<rparr>,
      Inr [(''status'', ''error''),
           (''message'', ''Entry not added because it was flagged as potentially offensive'')])"
proof -
  have h1: "\<exists>c\<in>set (problem car_entry). \<not> is_space c"
    by (simp add: car_entry_def is_space_def)
  have h2: "mistral rejecting_env (problem car_entry) = Gate_returns (Text ''NO'')"
    by (simp add: rejecting_env_def accepting_env_def)
  have h3: "upper ''NO'' \<noteq> ''YES''"
    by (simp add: upper_def upper_char_def small_letters_def capital_letters_def)
  have "add_entry rejecting_env fresh_world car_entry =
     (fst (add_entry rejecting_env fresh_world car_entry),
      Inr [(''status'', ''error''),
           (''message'', ''Entry not added because it was flagged as potentially offensive'')])"
    using add_entry_rejection_is_normal_outcome [OF h1 h2 h3, of fresh_world]
    by (simp add: prod_eq_iff)
  moreover have "fst (add_entry rejecting_env fresh_world car_entry) =
     fresh_world\<lparr>sent := [''My car will not start'']\<rparr>"
    by (simp add: add_entry_def example_defs string_defs store_defs)
  ultimately show ?thesis
    using h1 h2 h3 by simp
qed

section \<open>Failures of the gate and of the store\<close>

text \<open>
  C4. When the call to the moderation service raises (an error of the client, a
  timeout), \<open>add_entry\<close> raises an \<open>HTTPException\<close> with status 500 that carries the
  message of the exception; nothing is accepted: the table is what it was.
\<close>

theorem add_entry_gate_failure_is_500:
  assumes "\<exists>c\<in>set (problem entry). \<not> is_space c"
    and "mistral env (problem entry) = Gate_raises m"
  shows "snd (add_entry env w entry) = Inl (HTTPException 500 (''Database error: '' @ m)) \<and>
         table_of (db (fst (add_entry env w entry))) = table_of (db w) \<and>
         stored_rows (db (fst (add_entry env w entry))) = stored_rows (db w)"
proof -
  have "strip (problem entry) \<noteq> []"
    using assms(1) by (simp add: strip_empty_iff)
  then show ?thesis
    using assms(2)
    by (simp add: add_entry_def get_mistral_response_def py_upper_def connect_def close_def rollback_def
        database_error_def stored_rows_def)
qed

theorem add_entry_gate_failure_is_500_witness:
  "(\<exists>c\<in>set (problem car_entry). \<not> is_space c) \<and>
   mistral unreachable_env (problem car_entry) = Gate_raises ''Connection timed out'' \<and>
   snd (add_entry unreachable_env one_row_world car_entry) =
     Inl (HTTPException 500 ''Database error: Connection timed out'') \<and>
   stored_rows (db (fst (add_entry unreachable_env one_row_world car_entry))) = [alice_row]"
proof -
  have h1: "\<exists>c\<in>set (problem car_entry). \<not> is_space c"
    by (simp add: car_entry_def is_space_def)
  have h2: "mistral unreachable_env (problem car_entry) = Gate_raises ''Connection timed out''"
    by (simp add: unreachable_env_def accepting_env_def)
  have h3: "stored_rows (db one_row_world) = [alice_row]"
    by (simp add: one_row_world_def stored_rows_def)
  have h4: "''Database error: '' @ ''Connection timed out'' = ''Database error: Connection timed out''"
    by simp
  show ?thesis
    using add_entry_gate_failure_is_500 [OF h1 h2, of one_row_world] h1 h2 h3 h4
    by metis
qed

text \<open>
  C5. When the insert fails (the statement raises, or the commit does), \<open>add_entry\<close>
  raises an \<open>HTTPException\<close> with status 500 that carries the message of the failure, after
  rolling the connection back: the table on disk is what it was before the request, and
  \<open>get_all_entries\<close> answers as it did before the request.
\<close>

theorem add_entry_insert_failure_rolls_back:
  assumes "\<exists>c\<in>set (problem entry). \<not> is_space c"
    and "mistral env (problem entry) = Gate_returns (Text r)"
    and "upper r = ''YES''"
    and "execute_insert (fault env) (now env) (problem entry) (name entry) (email entry)
           (uuid4 env) (connect (db w)) = Inl m \<or>
         (\<exists>c1. execute_insert (fault env) (now env) (problem entry) (name entry) (email entry)
                  (uuid4 env) (connect (db w)) = Inr c1 \<and>
               commit (fault env) c1 = Inl m)"
  shows "snd (add_entry env w entry) = Inl (HTTPException 500 (''Database error: '' @ m)) \<and>
         table_of (db (fst (add_entry env w entry))) = table_of (db w) \<and>
         (\<forall>f. snd (get_all_entries f (db (fst (add_entry env w entry)))) =
              snd (get_all_entries f (db w)))"
proof -
  have valid: "strip (problem entry) \<noteq> []"
    using assms(1) by (simp add: strip_empty_iff)
  have both:
    "snd (add_entry env w entry) = Inl (HTTPException 500 (''Database error: '' @ m)) \<and>
     table_of (db (fst (add_entry env w entry))) = table_of (db w)"
    using assms(4)
  proof
    assume "execute_insert (fault env) (now env) (problem entry) (name entry) (email entry)
              (uuid4 env) (connect (db w)) = Inl m"
    then show ?thesis
      using valid assms(2,3)
      by (simp add: add_entry_def get_mistral_response_def py_upper_def database_error_def connect_def
          close_def rollback_def)
  next
    assume "\<exists>c1. execute_insert (fault env) (now env) (problem entry) (name entry)
                   (email entry) (uuid4 env) (connect (db w)) = Inr c1 \<and>
                 commit (fault env) c1 = Inl m"
    then obtain c1 where
      ins: "execute_insert (fault env) (now env) (problem entry) (name entry) (email entry)
              (uuid4 env) (connect (db w)) = Inr c1"
      and com: "commit (fault env) c1 = Inl m"
      by blast
    have "on_disk c1 = table_of (db w)"
      using execute_insert_on_disk [OF ins] by (simp add: connect_def)
    then show ?thesis
      using valid assms(2,3) ins com
      by (simp add: add_entry_def get_mistral_response_def py_upper_def database_error_def close_def
          rollback_def)
  qed
  then show ?thesis
    by (simp add: get_all_entries_reads_table)
qed

theorem add_entry_insert_failure_rolls_back_witness:
  "(\<exists>c\<in>set (problem car_entry). \<not> is_space c) \<and>
   mistral failing_commit_env (problem car_entry) = Gate_returns (Text ''Yes'') \<and>
   upper ''Yes'' = ''YES'' \<and>
   (\<exists>c1. execute_insert (fault failing_commit_env) (now failing_commit_env)
            (problem car_entry) (name car_entry) (email car_entry)
            (uuid4 failing_commit_env) (connect (db one_row_world)) = Inr c1 \<and>
          in_txn c1 \<noteq> on_disk c1 \<and>
          commit (fault failing_commit_env) c1 = Inl ''disk I/O error'') \<and>
   snd (add_entry failing_commit_env one_row_world car_entry) =
     Inl (HTTPException 500 ''Database error: disk I/O error'') \<and>
   table_of (db (fst (add_entry failing_commit_env one_row_world car_entry))) =
     table_of (db one_row_world)"
proof -
  have h1: "\<exists>c\<in>set (problem car_entry). \<not> is_space c"
    by (simp add: car_entry_def is_space_def)
  have h2: "mistral failing_commit_env (problem car_entry) = Gate_returns (Text ''Yes'')"
    by (simp add: failing_commit_env_def accepting_env_def)
  have h3: "upper ''Yes'' = ''YES''"
    by (simp add: upper_def upper_char_def small_letters_def capital_letters_def)
  have h4: "\<exists>c1. execute_insert (fault failing_commit_env) (now failing_commit_env)
            (problem car_entry) (name car_entry) (email car_entry)
            (uuid4 failing_commit_env) (connect (db one_row_world)) = Inr c1 \<and>
          in_txn c1 \<noteq> on_disk c1 \<and>
          commit (fault failing_commit_env) c1 = Inl ''disk I/O error''"
    by (simp add: failing_commit_env_def accepting_env_def one_row_world_def
        execute_insert_def connect_def commit_def)
  then have h4': "execute_insert (fault failing_commit_env) (now failing_commit_env)
            (problem car_entry) (name car_entry) (email car_entry)
            (uuid4 failing_commit_env) (connect (db one_row_world)) = Inl ''disk I/O error'' \<or>
      (\<exists>c1. execute_insert (fault failing_commit_env) (now failing_commit_env)
            (problem car_entry) (name car_entry) (email car_entry)
            (uuid4 failing_commit_env) (connect (db one_row_world)) = Inr c1 \<and>
          commit (fault failing_commit_env) c1 = Inl ''disk I/O error'')"
    by blast
  have h5: "''Database error: '' @ ''disk I/O error'' = ''Database error: disk I/O error''"
    by simp
  show ?thesis
    using add_entry_insert_failure_rolls_back [OF h1 h2 h3 h4'] h1 h2 h3 h4 h5
    by metis
qed

section \<open>What an accepted submission stores\<close>

text \<open>
  C10. The text stored for an accepted submission is the submitted string itself, with
  its leading and trailing whitespace: \<open>strip\<close> is used for the emptiness check only.
  The name and the email are stored as submitted too.
\<close>

theorem add_entry_stores_raw_text:
  assumes "\<exists>c\<in>set (problem entry). \<not> is_space c"
    and "table_of (db w) = Some t"
    and "fault env = No_fault"
    and "mistral env (problem entry) = Gate_returns (Text r)"
    and "upper r = ''YES''"
  shows "snd (add_entry env w entry) =
           Inr [(''status'', ''success''), (''message'', ''Entry added successfully'')] \<and>
         stored_rows (db (fst (add_entry env w entry))) \<noteq> [] \<and>
         col_problem (last (stored_rows (db (fst (add_entry env w entry))))) = problem entry \<and>
         col_name (last (stored_rows (db (fst (add_entry env w entry))))) = name entry \<and>
         col_email (last (stored_rows (db (fst (add_entry env w entry))))) = email entry"
  by (simp add: add_entry_accepted [OF assms] stored_rows_def)

theorem add_entry_stores_raw_text_witness:
  "(\<exists>c\<in>set (problem padded_entry). \<not> is_space c) \<and>
   table_of (db fresh_world) = Some empty_table \<and>
   fault accepting_env = No_fault \<and>
   mistral accepting_env (problem padded_entry) = Gate_returns (Text ''Yes'') \<and>
   upper ''Yes'' = ''YES'' \<and>
   strip (problem padded_entry) = ''slow wifi'' \<and>
   col_problem (last (stored_rows (db (fst (add_entry accepting_env fresh_world padded_entry))))) =
     ''  slow wifi  ''"
proof -
  have h1: "\<exists>c\<in>set (problem padded_entry). \<not> is_space c"
    by (simp add: padded_entry_def is_space_def)
  have h2: "table_of (db fresh_world) = Some empty_table"
    by (simp add: fresh_world_def)
  have h3: "fault accepting_env = No_fault"
    by (simp add: accepting_env_def)
  have h4: "mistral accepting_env (problem padded_entry) = Gate_returns (Text ''Yes'')"
    by (simp add: accepting_env_def)
  have h5: "upper ''Yes'' = ''YES''"
    by (simp add: upper_def upper_char_def small_letters_def capital_letters_def)
  have h6: "strip (problem padded_entry) = ''slow wifi''"
    by (simp add: padded_entry_def strip_def is_space_def)
  have h7: "problem padded_entry = ''  slow wifi  ''"
    by (simp add: padded_entry_def)
  show ?thesis
    using add_entry_stores_raw_text [OF h1 h2 h3 h4 h5] h1 h2 h3 h4 h5 h6 h7
    by metis
qed

text \<open>
  C8, as the code has it. The uuid of a newly stored entry is the token that \<open>uuid4\<close>
  generated for the request, stored as it is, and the outcome of \<open>add_entry\<close> is the
  same for every token: neither the handler nor the table checks it. So the stored
  uuids stay pairwise distinct exactly when they were and the new token is not among
  them. Over any sequence of requests: when the generated tokens are pairwise distinct
  and differ from the uuids already in the table, the uuids of the entries in the
  table at the start and of all entries the sequence inserts are pairwise distinct,
  also those of entries deleted in between.
\<close>

theorem uuids_unique_when_tokens_fresh:
  "(distinct (map col_uuid (stored_rows (db w)) @ tokens rs) \<longrightarrow>
      distinct (map col_uuid (stored_rows (db w)) @ inserted_uuids w rs)) \<and>
   map col_uuid (stored_rows (db (fst (add_entry env w entry)))) =
     map col_uuid (stored_rows (db w)) @
       (if snd (add_entry env w entry) =
             Inr [(''status'', ''success''), (''message'', ''Entry added successfully'')]
        then [uuid4 env] else []) \<and>
   (snd (add_entry env w entry) =
        Inr [(''status'', ''success''), (''message'', ''Entry added successfully'')] \<longrightarrow>
      (distinct (map col_uuid (stored_rows (db (fst (add_entry env w entry)))))
         \<longleftrightarrow> distinct (map col_uuid (stored_rows (db w))) \<and>
             uuid4 env \<notin> col_uuid ` set (stored_rows (db w)))) \<and>
   snd (add_entry (env\<lparr>uuid4 := u\<rparr>) w entry) = snd (add_entry env w entry)"
proof -
  have "distinct (map col_uuid (stored_rows (db w)) @ inserted_uuids w rs)"
    if d: "distinct (map col_uuid (stored_rows (db w)) @ tokens rs)"
  proof -
    from d have "distinct (inserted_uuids w rs)"
      by (simp add: inserted_uuids_distinct)
    moreover from d have
      "set (map col_uuid (stored_rows (db w))) \<inter> set (inserted_uuids w rs) = {}"
      using inserted_uuids_tokens [of w rs] by auto
    ultimately show ?thesis
      using d by simp
  qed
  then have run: "distinct (map col_uuid (stored_rows (db w)) @ tokens rs) \<longrightarrow>
      distinct (map col_uuid (stored_rows (db w)) @ inserted_uuids w rs)"
    by blast
  have step: "snd (add_entry env w entry) =
        Inr [(''status'', ''success''), (''message'', ''Entry added successfully'')] \<longrightarrow>
      (distinct (map col_uuid (stored_rows (db (fst (add_entry env w entry)))))
         \<longleftrightarrow> distinct (map col_uuid (stored_rows (db w))) \<and>
             uuid4 env \<notin> col_uuid ` set (stored_rows (db w)))"
    by (auto simp: add_entry_uuids)
  show ?thesis
    by (intro conjI run step add_entry_uuids add_entry_outcome_ignores_uuid)
qed

theorem uuids_unique_when_tokens_fresh_witness:
  "distinct (map col_uuid (stored_rows (db fresh_world)) @ tokens example_run) \<and>
   inserted_uuids fresh_world example_run =
     [''0b0e7a52-6c1d-4a57-9f0e-0c7c1c2f9a11'', ''7d1c3c0e-52a4-4b6f-8e1a-3b9a5d2f6c40''] \<and>
   map col_uuid (stored_rows (db (serve (serve (serve fresh_world
       (Add_entry accepting_env car_entry))
       (Delete_entry No_fault ''0b0e7a52-6c1d-4a57-9f0e-0c7c1c2f9a11''))
       (Add_entry second_env padded_entry)))) =
     [''7d1c3c0e-52a4-4b6f-8e1a-3b9a5d2f6c40''] \<and>
   distinct (map col_uuid (stored_rows (db fresh_world)) @
     inserted_uuids fresh_world example_run)"
proof -
  have h: "distinct (map col_uuid (stored_rows (db fresh_world)) @ tokens example_run)"
    by (simp add: example_defs stored_rows_def)
  have w1: "serve fresh_world (Add_entry accepting_env car_entry) =
      \<lparr>db = Db_file (Some \<lparr>table_rows = [alice_row], sqlite_sequence = 1\<rparr>),
       sent = [''My car will not start'']\<rparr>"
    by (simp add: add_entry_def example_defs string_defs store_defs)
  have w2: "serve \<lparr>db = Db_file (Some \<lparr>table_rows = [alice_row], sqlite_sequence = 1\<rparr>),
        sent = [''My car will not start'']\<rparr>
      (Delete_entry No_fault ''0b0e7a52-6c1d-4a57-9f0e-0c7c1c2f9a11'') =
      \<lparr>db = Db_file (Some \<lparr>table_rows = [], sqlite_sequence = 1\<rparr>),
       sent = [''My car will not start'']\<rparr>"
    by (simp add: delete_entry_def alice_row_def store_defs)
  have w3: "serve \<lparr>db = Db_file (Some \<lparr>table_rows = [], sqlite_sequence = 1\<rparr>),
        sent = [''My car will not start'']\<rparr>
      (Add_entry second_env padded_entry) =
      \<lparr>db = Db_file (Some \<lparr>table_rows = [wifi_row ''2024-05-01 10:00:00''],
                             sqlite_sequence = 2\<rparr>),
       sent = [''My car will not start'', ''  slow wifi  '']\<rparr>"
    by (simp add: add_entry_def example_defs string_defs store_defs)
  have r1: "inserted_uuids fresh_world example_run =
     [''0b0e7a52-6c1d-4a57-9f0e-0c7c1c2f9a11'', ''7d1c3c0e-52a4-4b6f-8e1a-3b9a5d2f6c40'']"
    unfolding example_run_def inserted_uuids.simps w1 w2 w3
    by (simp add: fresh_world_def empty_table_def stored_rows_def alice_row_def wifi_row_def)
  have r2: "map col_uuid (stored_rows (db (serve (serve (serve fresh_world
       (Add_entry accepting_env car_entry))
       (Delete_entry No_fault ''0b0e7a52-6c1d-4a57-9f0e-0c7c1c2f9a11''))
       (Add_entry second_env padded_entry)))) =
     [''7d1c3c0e-52a4-4b6f-8e1a-3b9a5d2f6c40'']"
    unfolding w1 w2 w3 by (simp add: stored_rows_def wifi_row_def)
  have r3: "distinct (map col_uuid (stored_rows (db fresh_world)) @
     inserted_uuids fresh_world example_run)"
    using uuids_unique_when_tokens_fresh [of fresh_world example_run] h by blast
  show ?thesis
    using h r1 r2 r3 by blast
qed

text \<open>
  Against C8 as stated: \<open>uuid4\<close> yields for a second submission the token it yielded
  for the first one. The second insert succeeds, and the new entry carries the uuid of
  the entry stored before it.
\<close>

theorem add_entry_repeated_token_counterexample:
  "stored_rows (db (serve fresh_world (Add_entry accepting_env car_entry))) = [alice_row] \<and>
   snd (add_entry accepting_env (serve fresh_world (Add_entry accepting_env car_entry))
          padded_entry) =
     Inr [(''status'', ''success''), (''message'', ''Entry added successfully'')] \<and>
   map col_uuid (stored_rows (db same_token_world)) =
     [''0b0e7a52-6c1d-4a57-9f0e-0c7c1c2f9a11'', ''0b0e7a52-6c1d-4a57-9f0e-0c7c1c2f9a11''] \<and>
   col_uuid (last (stored_rows (db same_token_world))) = col_uuid alice_row \<and>
   \<not> distinct (map col_uuid (stored_rows (db same_token_world)))"
proof -
  have w1: "serve fresh_world (Add_entry accepting_env car_entry) =
      \<lparr>db = Db_file (Some \<lparr>table_rows = [alice_row], sqlite_sequence = 1\<rparr>),
       sent = [''My car will not start'']\<rparr>"
    by (simp add: add_entry_def example_defs string_defs store_defs)
  have a2: "add_entry accepting_env
      \<lparr>db = Db_file (Some \<lparr>table_rows = [alice_row], sqlite_sequence = 1\<rparr>),
       sent = [''My car will not start'']\<rparr> padded_entry =
      (\<lparr>db = Db_file (Some
          \<lparr>table_rows = [alice_row,
             (wifi_row ''2024-05-01 10:00:00'')
               \<lparr>col_uuid := ''0b0e7a52-6c1d-4a57-9f0e-0c7c1c2f9a11''\<rparr>],
           sqlite_sequence = 2\<rparr>),
        sent = [''My car will not start'', ''  slow wifi  '']\<rparr>,
       Inr [(''status'', ''success''), (''message'', ''Entry added successfully'')])"
    by (simp add: add_entry_def example_defs string_defs store_defs)
  have w2: "same_token_world =
      \<lparr>db = Db_file (Some
          \<lparr>table_rows = [alice_row,
             (wifi_row ''2024-05-01 10:00:00'')
               \<lparr>col_uuid := ''0b0e7a52-6c1d-4a57-9f0e-0c7c1c2f9a11''\<rparr>],
           sqlite_sequence = 2\<rparr>),
        sent = [''My car will not start'', ''  slow wifi  '']\<rparr>"
    unfolding same_token_world_def w1 by (simp add: a2)
  show ?thesis
    unfolding w1 w2 a2 by (simp add: stored_rows_def alice_row_def)
qed

section \<open>Listing\<close>

text \<open>
  C6, as the code has it. On a store that holds the table, \<open>get_all_entries\<close> returns
  one dictionary with exactly the keys id, problem, name, created_at for every stored
  row, ordered by \<open>created_at\<close> from largest to smallest. The order is not strict: rows
  with the same \<open>created_at\<close> (the clock of the store counts whole seconds) keep their
  insertion order. A row with a strictly larger \<open>created_at\<close> is listed before a row
  with a smaller one.
\<close>

theorem get_all_entries_newest_first:
  assumes "table_of d = Some t" and "f = No_fault"
  shows "snd (get_all_entries f d) =
           Inr (map row_dict (order_by_created_at_desc (table_rows t))) \<and>
         (\<forall>r. map fst (row_dict r) = [''id'', ''problem'', ''name'', ''created_at''] \<and>
              map snd (row_dict r) =
                [PyInt (col_id r), PyStr (col_problem r), PyStr (col_name r),
                 PyStr (col_created_at r)]) \<and>
         mset (order_by_created_at_desc (table_rows t)) = mset (table_rows t) \<and>
         sorted_wrt (\<lambda>a b. col_created_at b \<le> col_created_at a)
           (order_by_created_at_desc (table_rows t)) \<and>
         (\<forall>k. filter (\<lambda>r. col_created_at r = k) (order_by_created_at_desc (table_rows t)) =
              filter (\<lambda>r. col_created_at r = k) (table_rows t)) \<and>
         (\<forall>a\<in>set (table_rows t). \<forall>b\<in>set (table_rows t).
            col_created_at a < col_created_at b \<longrightarrow>
            listed_before (row_dict b) (row_dict a)
              (map row_dict (order_by_created_at_desc (table_rows t))))"
proof -
  let ?rs = "order_by_created_at_desc (table_rows t)"
  have res: "snd (get_all_entries f d) = Inr (map row_dict ?rs)"
    using assms by (simp add: get_all_entries_reads_table)
  have keys: "\<forall>r. map fst (row_dict r) = [''id'', ''problem'', ''name'', ''created_at''] \<and>
      map snd (row_dict r) =
        [PyInt (col_id r), PyStr (col_problem r), PyStr (col_name r), PyStr (col_created_at r)]"
    by (simp add: row_dict_def)
  have before: "listed_before (row_dict b) (row_dict a) (map row_dict ?rs)"
    if "a \<in> set (table_rows t)" "b \<in> set (table_rows t)"
      "col_created_at a < col_created_at b" for a b
  proof -
    have a: "a \<in> set ?rs" and b: "b \<in> set ?rs"
      using that(1,2) by (simp_all add: order_by_created_at_desc_def)
    have "listed_before b a ?rs"
      by (rule sorted_desc_listed_before [OF order_by_sorted a b that(3)])
    then show ?thesis
      by (rule listed_before_map)
  qed
  show ?thesis
    using res keys before by (simp add: order_by_mset order_by_sorted order_by_stable)
qed

theorem get_all_entries_newest_first_witness:
  "table_of (two_row_db ''2024-05-01 10:00:01'') =
     Some \<lparr>table_rows = [alice_row, wifi_row ''2024-05-01 10:00:01''], sqlite_sequence = 2\<rparr> \<and>
   db (fst (add_entry later_env (fst (add_entry accepting_env fresh_world car_entry))
              padded_entry)) = two_row_db ''2024-05-01 10:00:01'' \<and>
   col_created_at alice_row < col_created_at (wifi_row ''2024-05-01 10:00:01'') \<and>
   snd (get_all_entries No_fault (two_row_db ''2024-05-01 10:00:01'')) =
     Inr [row_dict (wifi_row ''2024-05-01 10:00:01''), row_dict alice_row] \<and>
   listed_before (row_dict (wifi_row ''2024-05-01 10:00:01'')) (row_dict alice_row)
     [row_dict (wifi_row ''2024-05-01 10:00:01''), row_dict alice_row]"
proof -
  let ?b = "wifi_row ''2024-05-01 10:00:01''"
  let ?t = "\<lparr>table_rows = [alice_row, ?b], sqlite_sequence = 2\<rparr>"
  have h1: "table_of (two_row_db ''2024-05-01 10:00:01'') = Some ?t"
    by (simp add: two_row_db_def)
  have h2: "db (fst (add_entry later_env (fst (add_entry accepting_env fresh_world car_entry))
              padded_entry)) = two_row_db ''2024-05-01 10:00:01''"
    by (simp add: add_entry_def example_defs string_defs store_defs)
  have h3: "col_created_at alice_row < col_created_at ?b"
    by (simp add: alice_row_def wifi_row_def)
  have h4: "order_by_created_at_desc (table_rows ?t) = [?b, alice_row]"
    using h3 by (simp add: order_by_created_at_desc_def)
  have mem: "alice_row \<in> set (table_rows ?t)" "?b \<in> set (table_rows ?t)"
    by simp_all
  note inst = get_all_entries_newest_first [OF h1 refl]
  from inst have
    "snd (get_all_entries No_fault (two_row_db ''2024-05-01 10:00:01'')) =
       Inr (map row_dict (order_by_created_at_desc (table_rows ?t)))"
    by (rule conjunct1)
  then have r1: "snd (get_all_entries No_fault (two_row_db ''2024-05-01 10:00:01'')) =
     Inr [row_dict ?b, row_dict alice_row]"
    by (simp only: h4 list.map)
  from inst have
    "\<forall>a\<in>set (table_rows ?t). \<forall>b\<in>set (table_rows ?t).
       col_created_at a < col_created_at b \<longrightarrow>
       listed_before (row_dict b) (row_dict a)
         (map row_dict (order_by_created_at_desc (table_rows ?t)))"
    by blast
  with mem h3 have
    "listed_before (row_dict ?b) (row_dict alice_row)
       (map row_dict (order_by_created_at_desc (table_rows ?t)))"
    by blast
  then have r2:
    "listed_before (row_dict ?b) (row_dict alice_row) [row_dict ?b, row_dict alice_row]"
    by (simp only: h4 list.map)
  show ?thesis
    using h1 h2 h3 r1 r2 by blast
qed

text \<open>
  Against C6 as stated: two submissions accepted within the same second. The second
  one, inserted after the first, is listed after it, and its \<open>created_at\<close> is not
  smaller than the first one's, so the listing is not strictly descending.
\<close>

theorem get_all_entries_same_second_counterexample:
  "db (fst (add_entry second_env (fst (add_entry accepting_env fresh_world car_entry))
              padded_entry)) = two_row_db ''2024-05-01 10:00:00'' \<and>
   snd (get_all_entries No_fault (two_row_db ''2024-05-01 10:00:00'')) =
     Inr [row_dict alice_row, row_dict (wifi_row ''2024-05-01 10:00:00'')] \<and>
   \<not> listed_before (row_dict (wifi_row ''2024-05-01 10:00:00'')) (row_dict alice_row)
        [row_dict alice_row, row_dict (wifi_row ''2024-05-01 10:00:00'')] \<and>
   \<not> col_created_at (wifi_row ''2024-05-01 10:00:00'') < col_created_at alice_row"
proof -
  have c1: "db (fst (add_entry second_env (fst (add_entry accepting_env fresh_world car_entry))
              padded_entry)) = two_row_db ''2024-05-01 10:00:00''"
    by (simp add: add_entry_def example_defs string_defs store_defs)
  have c2: "snd (get_all_entries No_fault (two_row_db ''2024-05-01 10:00:00'')) =
     Inr [row_dict alice_row, row_dict (wifi_row ''2024-05-01 10:00:00'')]"
    by (simp add: get_all_entries_reads_table two_row_db_def order_by_created_at_desc_def
        alice_row_def wifi_row_def)
  have c3: "\<not> listed_before (row_dict (wifi_row ''2024-05-01 10:00:00'')) (row_dict alice_row)
        [row_dict alice_row, row_dict (wifi_row ''2024-05-01 10:00:00'')]"
    by (simp add: row_dict_def alice_row_def wifi_row_def)
  have c4: "\<not> col_created_at (wifi_row ''2024-05-01 10:00:00'') < col_created_at alice_row"
    by (simp add: alice_row_def wifi_row_def)
  show ?thesis
    using c1 c2 c3 c4 by blast
qed

section \<open>Deleting\<close>

text \<open>
  C7, as the code has it. On a store that holds the table and whose statement and
  commit do not fail, \<open>delete_entry\<close> answers with the success body for every token,
  whether a row matched or not. It removes every row whose uuid is the token and no
  other row: that is at most one row when the stored uuids are pairwise distinct,
  which nothing enforces, and more when a uuid is repeated. When no row matches, the
  database is left as it was, and a second delete with the same token changes nothing
  more.
\<close>

theorem delete_entry_removes_every_match:
  assumes "table_of d = Some t" and "f = No_fault"
  shows "snd (delete_entry f d token) =
           Inr [(''status'', ''success''), (''message'', ''Entry deleted successfully'')] \<and>
         stored_rows (fst (delete_entry f d token)) =
           filter (\<lambda>r. col_uuid r \<noteq> token) (table_rows t) \<and>
         length (table_rows t) =
           length (stored_rows (fst (delete_entry f d token))) +
             length (filter (\<lambda>r. col_uuid r = token) (table_rows t)) \<and>
         (distinct (map col_uuid (table_rows t)) \<longrightarrow>
            length (table_rows t) =
              length (stored_rows (fst (delete_entry f d token))) +
                (if token \<in> col_uuid ` set (table_rows t) then 1 else 0)) \<and>
         (token \<notin> col_uuid ` set (table_rows t) \<longrightarrow> fst (delete_entry f d token) = d) \<and>
         fst (delete_entry f (fst (delete_entry f d token)) token) =
           fst (delete_entry f d token)"
proof -
  let ?keep = "filter (\<lambda>r. col_uuid r \<noteq> token) (table_rows t)"
  have d: "d = Db_file (Some t)"
    using assms(1) by (cases d) simp_all
  have run: "delete_entry f d token =
      (Db_file (Some (t\<lparr>table_rows := ?keep\<rparr>)),
       Inr [(''status'', ''success''), (''message'', ''Entry deleted successfully'')])"
    using assms
    by (simp add: delete_entry_def connect_def execute_delete_def commit_def close_def)
  have again: "delete_entry f (Db_file (Some (t\<lparr>table_rows := ?keep\<rparr>))) token =
      (Db_file (Some (t\<lparr>table_rows := ?keep\<rparr>)),
       Inr [(''status'', ''success''), (''message'', ''Entry deleted successfully'')])"
    using assms(2)
    by (simp add: delete_entry_def connect_def execute_delete_def commit_def close_def)
  have split: "length (table_rows t) =
      length (filter (\<lambda>r. col_uuid r = token) (table_rows t)) + length ?keep"
    using sum_length_filter_compl [of "\<lambda>r. col_uuid r = token" "table_rows t"] by simp
  have count: "length (table_rows t) =
      length ?keep + (if token \<in> col_uuid ` set (table_rows t) then 1 else 0)"
    if dist: "distinct (map col_uuid (table_rows t))"
  proof -
    show ?thesis
    proof (cases "token \<in> col_uuid ` set (table_rows t)")
      case True
      then have "filter (\<lambda>r. col_uuid r = token) (table_rows t) \<noteq> []"
        by (auto simp: filter_empty_conv)
      then have "length (filter (\<lambda>r. col_uuid r = token) (table_rows t)) = 1"
        using filter_key_distinct_le_one [OF dist, of token]
        by (cases "filter (\<lambda>r. col_uuid r = token) (table_rows t)") simp_all
      with split True show ?thesis by simp
    next
      case False
      then have "filter (\<lambda>r. col_uuid r = token) (table_rows t) = []"
        by (auto simp: filter_empty_conv)
      with split False show ?thesis by simp
    qed
  qed
  have same: "fst (delete_entry f d token) = d"
    if "token \<notin> col_uuid ` set (table_rows t)"
  proof -
    have "\<forall>r\<in>set (table_rows t). col_uuid r \<noteq> token"
      using that by blast
    then have keep: "?keep = table_rows t"
      by simp
    have "fst (delete_entry f d token) = Db_file (Some (t\<lparr>table_rows := ?keep\<rparr>))"
      by (simp add: run)
    also have "\<dots> = Db_file (Some t)"
      by (simp add: keep)
    finally show ?thesis
      by (simp add: d)
  qed
  show ?thesis
    using count same split by (simp add: run again stored_rows_def)
qed

theorem delete_entry_removes_every_match_witness:
  "table_of (two_row_db ''2024-05-01 10:00:01'') =
     Some \<lparr>table_rows = [alice_row, wifi_row ''2024-05-01 10:00:01''], sqlite_sequence = 2\<rparr> \<and>
   distinct (map col_uuid [alice_row, wifi_row ''2024-05-01 10:00:01'']) \<and>
   snd (delete_entry No_fault (two_row_db ''2024-05-01 10:00:01'')
          ''0b0e7a52-6c1d-4a57-9f0e-0c7c1c2f9a11'') =
     Inr [(''status'', ''success''), (''message'', ''Entry deleted successfully'')] \<and>
   stored_rows (fst (delete_entry No_fault (two_row_db ''2024-05-01 10:00:01'')
          ''0b0e7a52-6c1d-4a57-9f0e-0c7c1c2f9a11'')) = [wifi_row ''2024-05-01 10:00:01''] \<and>
   ''no-such-token'' \<notin> col_uuid ` set [alice_row, wifi_row ''2024-05-01 10:00:01''] \<and>
   delete_entry No_fault (two_row_db ''2024-05-01 10:00:01'') ''no-such-token'' =
     (two_row_db ''2024-05-01 10:00:01'',
      Inr [(''status'', ''success''), (''message'', ''Entry deleted successfully'')])"
proof -
  let ?b = "wifi_row ''2024-05-01 10:00:01''"
  let ?t = "\<lparr>table_rows = [alice_row, ?b], sqlite_sequence = 2\<rparr>"
  let ?d = "two_row_db ''2024-05-01 10:00:01''"
  have h1: "table_of ?d = Some ?t"
    by (simp add: two_row_db_def)
  have h2: "distinct (map col_uuid [alice_row, ?b])"
    by (simp add: alice_row_def wifi_row_def)
  have h3: "''no-such-token'' \<notin> col_uuid ` set [alice_row, ?b]"
    by (simp add: alice_row_def wifi_row_def)
  have keep: "filter (\<lambda>r. col_uuid r \<noteq> ''0b0e7a52-6c1d-4a57-9f0e-0c7c1c2f9a11'')
      (table_rows ?t) = [?b]"
    by (simp add: alice_row_def wifi_row_def)
  have rows: "table_rows ?t = [alice_row, ?b]"
    by simp
  note hit = delete_entry_removes_every_match
    [OF h1 refl, of "''0b0e7a52-6c1d-4a57-9f0e-0c7c1c2f9a11''"]
  note miss = delete_entry_removes_every_match [OF h1 refl, of "''no-such-token''"]
  have r1: "snd (delete_entry No_fault ?d ''0b0e7a52-6c1d-4a57-9f0e-0c7c1c2f9a11'') =
     Inr [(''status'', ''success''), (''message'', ''Entry deleted successfully'')]"
    using hit by (rule conjunct1)
  have r2: "stored_rows (fst (delete_entry No_fault ?d
      ''0b0e7a52-6c1d-4a57-9f0e-0c7c1c2f9a11'')) = [?b]"
    using hit keep by metis
  have r3: "snd (delete_entry No_fault ?d ''no-such-token'') =
     Inr [(''status'', ''success''), (''message'', ''Entry deleted successfully'')]"
    using miss by (rule conjunct1)
  have r4: "fst (delete_entry No_fault ?d ''no-such-token'') = ?d"
    using miss h3 rows by metis
  have r5: "delete_entry No_fault ?d ''no-such-token'' =
     (?d, Inr [(''status'', ''success''), (''message'', ''Entry deleted successfully'')])"
    using r3 r4 by (simp add: prod_eq_iff)
  show ?thesis
    using h1 h2 h3 r1 r2 r5 by blast
qed

text \<open>
  Against C7 as stated: two accepted submissions for which \<open>uuid4\<close> yielded the same
  token. One delete with that token removes both rows.
\<close>

theorem delete_entry_repeated_uuid_counterexample:
  "length (stored_rows (db same_token_world)) = 2 \<and>
   map col_uuid (stored_rows (db same_token_world)) =
     [''0b0e7a52-6c1d-4a57-9f0e-0c7c1c2f9a11'', ''0b0e7a52-6c1d-4a57-9f0e-0c7c1c2f9a11''] \<and>
   delete_entry No_fault (db same_token_world) ''0b0e7a52-6c1d-4a57-9f0e-0c7c1c2f9a11'' =
     (Db_file (Some \<lparr>table_rows = [], sqlite_sequence = 2\<rparr>),
      Inr [(''status'', ''success''), (''message'', ''Entry deleted successfully'')]) \<and>
   stored_rows (fst (delete_entry No_fault (db same_token_world)
     ''0b0e7a52-6c1d-4a57-9f0e-0c7c1c2f9a11'')) = []"
proof -
  have w1: "serve fresh_world (Add_entry accepting_env car_entry) =
      \<lparr>db = Db_file (Some \<lparr>table_rows = [alice_row], sqlite_sequence = 1\<rparr>),
       sent = [''My car will not start'']\<rparr>"
    by (simp add: add_entry_def example_defs string_defs store_defs)
  have w2: "serve \<lparr>db = Db_file (Some \<lparr>table_rows = [alice_row], sqlite_sequence = 1\<rparr>),
        sent = [''My car will not start'']\<rparr> (Add_entry accepting_env padded_entry) =
      \<lparr>db = Db_file (Some
          \<lparr>table_rows = [alice_row,
             (wifi_row ''2024-05-01 10:00:00'')
               \<lparr>col_uuid := ''0b0e7a52-6c1d-4a57-9f0e-0c7c1c2f9a11''\<rparr>],
           sqlite_sequence = 2\<rparr>),
        sent = [''My car will not start'', ''  slow wifi  '']\<rparr>"
    by (simp add: add_entry_def example_defs string_defs store_defs)
  have d: "db same_token_world =
      Db_file (Some
        \<lparr>table_rows = [alice_row,
           (wifi_row ''2024-05-01 10:00:00'')
             \<lparr>col_uuid := ''0b0e7a52-6c1d-4a57-9f0e-0c7c1c2f9a11''\<rparr>],
         sqlite_sequence = 2\<rparr>)"
    unfolding same_token_world_def w1 w2 by simp
  show ?thesis
    unfolding d
    by (simp add: delete_entry_def alice_row_def store_defs)
qed

section \<open>Initialisation\<close>

text \<open>
  C9, as the code has it. \<open>init_db\<close> looks at the file, not at the table: when the file
  \<open>problems.db\<close> is missing it creates the file with an empty table; when the file
  exists it does nothing, whether or not the file holds the table. Running it a second
  time changes nothing.
\<close>

theorem init_db_creates_when_file_missing:
  "init_db No_fault No_file =
     (Db_file (Some \<lparr>table_rows = [], sqlite_sequence = 0\<rparr>), Inr ()) \<and>
   (path_exists d \<longrightarrow> init_db f d = (d, Inr ())) \<and>
   init_db No_fault (fst (init_db No_fault d)) = (fst (init_db No_fault d), Inr ())"
proof -
  have new: "init_db No_fault No_file =
      (Db_file (Some \<lparr>table_rows = [], sqlite_sequence = 0\<rparr>), Inr ())"
    by (simp add: init_db_def connect_def execute_create_table_def commit_def close_def)
  have old: "init_db f d = (d, Inr ())" if "path_exists d" for f d
    using that by (simp add: init_db_def)
  have "init_db No_fault (fst (init_db No_fault d)) = (fst (init_db No_fault d), Inr ())"
  proof (cases d)
    case No_file
    then show ?thesis by (simp add: new old)
  next
    case (Db_file t)
    then show ?thesis by (simp add: old)
  qed
  with new old show ?thesis by blast
qed

theorem init_db_creates_when_file_missing_witness:
  "path_exists (two_row_db ''2024-05-01 10:00:01'') \<and>
   init_db No_fault (two_row_db ''2024-05-01 10:00:01'') =
     (two_row_db ''2024-05-01 10:00:01'', Inr ()) \<and>
   init_db No_fault (fst (init_db No_fault No_file)) = (Db_file (Some empty_table), Inr ())"
proof -
  have h1: "path_exists (two_row_db ''2024-05-01 10:00:01'')"
    by (simp add: two_row_db_def)
  have r1: "init_db No_fault (two_row_db ''2024-05-01 10:00:01'') =
     (two_row_db ''2024-05-01 10:00:01'', Inr ())"
    using init_db_creates_when_file_missing
      [of "two_row_db ''2024-05-01 10:00:01''" No_fault] h1
    by blast
  note inst = init_db_creates_when_file_missing [of No_file No_fault]
  from inst have "init_db No_fault No_file =
      (Db_file (Some \<lparr>table_rows = [], sqlite_sequence = 0\<rparr>), Inr ())"
    by (rule conjunct1)
  then have made: "fst (init_db No_fault No_file) = Db_file (Some empty_table)"
    by (simp add: empty_table_def)
  from inst have "init_db No_fault (fst (init_db No_fault No_file)) =
      (fst (init_db No_fault No_file), Inr ())"
    by blast
  then have r2: "init_db No_fault (fst (init_db No_fault No_file)) =
     (Db_file (Some empty_table), Inr ())"
    by (simp only: made)
  show ?thesis
    using h1 r1 r2 by blast
qed

text \<open>
  Against C9 as stated: a database file that exists without the table (an empty file, or the file that
  \<open>sqlite3.connect\<close> creates in a handler after the file was removed): \<open>init_db\<close>
  returns normally and the table is still missing.
\<close>

theorem init_db_existing_file_without_table_counterexample:
  "table_of (Db_file None) = None \<and>
   init_db No_fault (Db_file None) = (Db_file None, Inr ()) \<and>
   table_of (fst (init_db No_fault (Db_file None))) = None"
  by (simp add: init_db_def)

end
